theory Spec2Isabelle
  imports Complex_Main
begin

section \<open>Python strings\<close>

text \<open>
  The script \<^verbatim>\<open>fsdn2plot.py\<close> is one straight-line procedure: it reads two text files,
  asks an FDSN server for one hour of waveforms per station, and draws one panel per
  station. The model follows the script from top to bottom.

  A Python \<^verbatim>\<open>str\<close> is modelled as a \<^typ>\<open>string\<close> whose characters are the code points
  below 256, one \<^typ>\<open>char\<close> per code point. \<^verbatim>\<open>str.isspace\<close> holds in that range for
  the twelve code points below, and \<^verbatim>\<open>strip()\<close> and \<^verbatim>\<open>split()\<close> use exactly that test.
\<close>

definition py_isspace :: "char \<Rightarrow> bool" where
  "py_isspace c =
     (c \<in> set [CHR 0x09, CHR 0x0A, CHR 0x0B, CHR 0x0C, CHR 0x0D, CHR 0x1C, CHR 0x1D,
               CHR 0x1E, CHR 0x1F, CHR 0x20, CHR 0x85, CHR 0xA0])"

definition py_lstrip :: "string \<Rightarrow> string" where
  "py_lstrip s = dropWhile py_isspace s"

definition py_rstrip :: "string \<Rightarrow> string" where
  "py_rstrip s = rev (dropWhile py_isspace (rev s))"

text \<open>\<^verbatim>\<open>line.strip()\<close>\<close>

definition py_strip :: "string \<Rightarrow> string" where
  "py_strip s = py_lstrip (py_rstrip s)"

text \<open>
  \<^verbatim>\<open>s.split()\<close>: the maximal runs of non-whitespace characters, in order. \<open>cur\<close> holds the
  run being read, reversed.
\<close>

fun split_ws :: "string \<Rightarrow> string \<Rightarrow> string list" where
  "split_ws cur [] = (if cur = [] then [] else [rev cur])"
| "split_ws cur (c # cs) =
     (if py_isspace c
      then (if cur = [] then split_ws [] cs else rev cur # split_ws [] cs)
      else split_ws (c # cur) cs)"

definition py_split :: "string \<Rightarrow> string list" where
  "py_split s = split_ws [] s"

text \<open>
  \<^verbatim>\<open>s.split(None, 1)\<close>: the first run of non-whitespace characters and, when anything
  but whitespace follows it, the rest of the string from the next non-whitespace
  character on, unchanged.
\<close>

definition py_split1 :: "string \<Rightarrow> string list" where
  "py_split1 s =
     (let s1 = dropWhile py_isspace s in
      if s1 = [] then []
      else
        let tok = takeWhile (\<lambda>c. \<not> py_isspace c) s1;
            rest = dropWhile py_isspace (dropWhile (\<lambda>c. \<not> py_isspace c) s1)
        in if rest = [] then [tok] else [tok, rest])"

text \<open>\<^verbatim>\<open>s.split(sep)\<close> for a separator of one character: empty parts are kept.\<close>

fun py_split_sep :: "char \<Rightarrow> string \<Rightarrow> string list" where
  "py_split_sep sep [] = [[]]"
| "py_split_sep sep (c # cs) =
     (if c = sep then [] # py_split_sep sep cs
      else (case py_split_sep sep cs of
              [] \<Rightarrow> [[c]]
            | p # ps \<Rightarrow> (c # p) # ps))"

section \<open>Exceptions and files\<close>

datatype py_exception =
    FileNotFoundError string
  | IndexError
  | ValueError
  | FDSNException string
  | OtherException string

text \<open>
  A file system maps a path to the lines the file iterator yields (each with its line
  terminator, when it has one). \<^verbatim>\<open>open(path, "r")\<close> raises when the path is absent.
\<close>

type_synonym filesystem = "string \<rightharpoonup> string list"

definition open_read :: "filesystem \<Rightarrow> string \<Rightarrow> py_exception + string list" where
  "open_read fs path =
     (case fs path of None \<Rightarrow> Inl (FileNotFoundError path) | Some ls \<Rightarrow> Inr ls)"

section \<open>Configuration\<close>

definition VENTANA_SEGUNDOS :: rat where
  "VENTANA_SEGUNDOS = 3600"

definition ARCHIVO_ESTACIONES_CODIGO :: "string list \<Rightarrow> string" where
  "ARCHIVO_ESTACIONES_CODIGO argv =
     (if length argv > 1 then argv ! 1 else ''lista_de_estaciones_por_codigo.txt'')"

definition ARCHIVO_ESTACIONES_NOMBRE :: string where
  "ARCHIVO_ESTACIONES_NOMBRE = ''lista_de_estaciones_por_nombre.txt''"

definition IMG_WIDTH_INCHES :: rat where
  "IMG_WIDTH_INCHES = 9"

definition IMG_DPI :: nat where
  "IMG_DPI = 100"

definition IMG_HEIGHT_PER_STATION :: rat where
  "IMG_HEIGHT_PER_STATION = 1 / 2"

definition OUTPUT_FILENAME :: string where
  "OUTPUT_FILENAME = ''fdsn2plot.png''"

section \<open>The two station lists\<close>

text \<open>
  The name file fills the dictionary \<^verbatim>\<open>estacion_nombres\<close>: one assignment per line that,
  once stripped, is not empty and splits into a code and a remainder.
\<close>

definition nombre_line :: "(string \<rightharpoonup> string) \<Rightarrow> string \<Rightarrow> (string \<rightharpoonup> string)" where
  "nombre_line d line0 =
     (let line = py_strip line0 in
      if line \<noteq> [] then
        (let parts = py_split1 line in
         if length parts = 2 then d(parts ! 0 \<mapsto> parts ! 1) else d)
      else d)"

fun load_nombres :: "(string \<rightharpoonup> string) \<Rightarrow> string list \<Rightarrow> (string \<rightharpoonup> string)" where
  "load_nombres d [] = d"
| "load_nombres d (line # f) = load_nombres (nombre_line d line) f"

definition estacion_nombres :: "string list \<Rightarrow> (string \<rightharpoonup> string)" where
  "estacion_nombres f = load_nombres Map.empty f"

text \<open>A station descriptor is the tuple \<^verbatim>\<open>(net, full_sta, loc, cha)\<close>.\<close>

type_synonym estacion = "string \<times> string \<times> string \<times> string"

definition estacion_line :: "estacion list \<Rightarrow> string \<Rightarrow> estacion list" where
  "estacion_line acc line =
     (let partes = py_split (py_strip line) in
      if length partes \<ge> 2 then acc @ [(partes ! 0, partes ! 1, ''*'', ''H*'')] else acc)"

fun load_estaciones :: "estacion list \<Rightarrow> string list \<Rightarrow> estacion list" where
  "load_estaciones acc [] = acc"
| "load_estaciones acc (line # f) = load_estaciones (estacion_line acc line) f"

definition estaciones :: "string list \<Rightarrow> estacion list" where
  "estaciones f = load_estaciones [] f"

text \<open>
  The station code of the plotting loop: \<^verbatim>\<open>splitted[1] if len(splitted) == 2 else full_sta\<close>.
\<close>

definition station_code :: "string \<Rightarrow> string" where
  "station_code full_sta =
     (let splitted = py_split_sep (CHR ''.'') full_sta in
      if length splitted = 2 then splitted ! 1 else full_sta)"

text \<open>\<^verbatim>\<open>estacion_nombres.get(sta, sta)\<close>\<close>

definition nombre_estacion :: "(string \<rightharpoonup> string) \<Rightarrow> string \<Rightarrow> string" where
  "nombre_estacion d sta = (case d sta of None \<Rightarrow> sta | Some n \<Rightarrow> n)"

section \<open>Sample values and number formatting\<close>

text \<open>
  A sample of a trace is a 64-bit float: a finite value, an infinity or NaN. The finite
  values are modelled by the rationals they denote; the rounding and the overflow of
  float arithmetic are not modelled. Instants are seconds since the epoch, and the
  difference of two instants is a number of seconds.
\<close>

datatype npfloat = Finite rat | PosInf | NegInf | NaN

text \<open>One element of \<^verbatim>\<open>tr.data * 100.0\<close>\<close>

fun np_mul100 :: "npfloat \<Rightarrow> npfloat" where
  "np_mul100 (Finite x) = Finite (x * 100)"
| "np_mul100 PosInf = PosInf"
| "np_mul100 NegInf = NegInf"
| "np_mul100 NaN = NaN"

text \<open>One element of \<^verbatim>\<open>np.isfinite(a)\<close>\<close>

fun np_isfinite :: "npfloat \<Rightarrow> bool" where
  "np_isfinite (Finite x) = True"
| "np_isfinite PosInf = False"
| "np_isfinite NegInf = False"
| "np_isfinite NaN = False"

text \<open>One element of \<^verbatim>\<open>abs(a)\<close>\<close>

fun np_abs :: "npfloat \<Rightarrow> npfloat" where
  "np_abs (Finite x) = Finite \<bar>x\<bar>"
| "np_abs PosInf = PosInf"
| "np_abs NegInf = PosInf"
| "np_abs NaN = NaN"

text \<open>The order of floats; every comparison with NaN is false.\<close>

fun np_less :: "npfloat \<Rightarrow> npfloat \<Rightarrow> bool" where
  "np_less NaN b = False"
| "np_less a NaN = False"
| "np_less PosInf b = False"
| "np_less a PosInf = True"
| "np_less a NegInf = False"
| "np_less NegInf b = True"
| "np_less (Finite x) (Finite y) = (x < y)"


text \<open>\<^verbatim>\<open>np.maximum\<close>, the step of the reduction \<^verbatim>\<open>a.max()\<close>: NaN propagates.\<close>

definition np_maximum :: "npfloat \<Rightarrow> npfloat \<Rightarrow> npfloat" where
  "np_maximum a b =
     (if a = NaN then a else if b = NaN then b else if np_less a b then b else a)"

text \<open>\<^verbatim>\<open>a.max()\<close> raises ValueError on an array of no element.\<close>

definition np_max :: "npfloat list \<Rightarrow> py_exception + npfloat" where
  "np_max a = (case a of [] \<Rightarrow> Inl ValueError | x # xs \<Rightarrow> Inr (foldl np_maximum x xs))"

text \<open>
  \<^verbatim>\<open>a[mask]\<close> for a boolean mask: the elements at the positions where the mask is true;
  IndexError when the mask has another length than the array.
\<close>

definition bool_index :: "'a list \<Rightarrow> bool list \<Rightarrow> py_exception + 'a list" where
  "bool_index a msk =
     (if length a = length msk then Inr (map fst (filter snd (zip a msk)))
      else Inl IndexError)"

text \<open>
  The format specification \<^verbatim>\<open>.Nf\<close>: the value rounded to N decimals, a tie going to the
  even neighbour, with a minus sign for a negative value.
\<close>

definition round_half_even :: "rat \<Rightarrow> int" where
  "round_half_even q =
     (let f = \<lfloor>q\<rfloor>; r = q - of_int f in
      if r < 1 / 2 then f
      else if r > 1 / 2 then f + 1
      else if even f then f else f + 1)"

fun show_nat :: "nat \<Rightarrow> string" where
  "show_nat n =
     (if n < 10 then [''0123456789'' ! n]
      else show_nat (n div 10) @ [''0123456789'' ! (n mod 10)])"

definition zero_pad :: "nat \<Rightarrow> string \<Rightarrow> string" where
  "zero_pad w s = replicate (w - length s) (CHR ''0'') @ s"

definition format_fixed :: "nat \<Rightarrow> rat \<Rightarrow> string" where
  "format_fixed d x =
     (let n = nat (round_half_even (\<bar>x\<bar> * 10 ^ d)) in
      (if x < 0 then ''-'' else []) @ show_nat (n div 10 ^ d) @
      (if d = 0 then [] else ''.'' @ zero_pad d (show_nat (n mod 10 ^ d))))"

fun format_float :: "nat \<Rightarrow> npfloat \<Rightarrow> string" where
  "format_float d (Finite x) = format_fixed d x"
| "format_float d PosInf = ''inf''"
| "format_float d NegInf = ''-inf''"
| "format_float d NaN = ''nan''"

section \<open>The waveform library\<close>

text \<open>
  A trace carries what the script reads of it: \<^verbatim>\<open>tr.data\<close>, \<^verbatim>\<open>tr.times("matplotlib")\<close>
  and \<^verbatim>\<open>tr.stats.endtime\<close>. A stream is the list of its traces. The FDSN client and the
  processing methods of a stream belong to the library; the model takes them as
  functions that return the stream or raise.
\<close>

record trace =
  data :: "npfloat list"
  times_matplotlib :: "rat list"
  endtime :: rat

type_synonym stream = "trace list"

datatype filter_call =
    Highpass rat nat bool
  | Lowpass rat nat bool
  | Bandstop rat rat nat bool

record obspy =
  get_waveforms ::
    "string \<Rightarrow> string \<Rightarrow> string \<Rightarrow> string \<Rightarrow> rat \<Rightarrow> rat \<Rightarrow> bool \<Rightarrow> py_exception + stream"
  remove_response :: "string \<Rightarrow> bool \<Rightarrow> bool \<Rightarrow> stream \<Rightarrow> py_exception + stream"
  filter_stream :: "filter_call \<Rightarrow> stream \<Rightarrow> py_exception + stream"

text \<open>Sequencing inside the \<^verbatim>\<open>try\<close> block: the first exception ends the block.\<close>

definition and_then :: "py_exception + 'a \<Rightarrow> ('a \<Rightarrow> py_exception + 'b) \<Rightarrow> py_exception + 'b" where
  "and_then m f = (case m of Inl e \<Rightarrow> Inl e | Inr x \<Rightarrow> f x)"

text \<open>\<^verbatim>\<open>st[0]\<close>\<close>

definition first_trace :: "stream \<Rightarrow> py_exception + trace" where
  "first_trace st = (case st of [] \<Rightarrow> Inl IndexError | tr # _ \<Rightarrow> Inr tr)"

definition t_inicio :: "rat \<Rightarrow> rat" where
  "t_inicio ahora = ahora - VENTANA_SEGUNDOS"

definition t_fin :: "rat \<Rightarrow> rat" where
  "t_fin ahora = ahora"

text \<open>The date number of the plotting library: days since the epoch.\<close>

definition matplotlib_date :: "rat \<Rightarrow> rat" where
  "matplotlib_date t = t / 86400"

section \<open>One station\<close>

text \<open>The request and the four processing calls, in the order of the script.\<close>

definition fetch_process ::
  "obspy \<Rightarrow> rat \<Rightarrow> string \<Rightarrow> string \<Rightarrow> string \<Rightarrow> string \<Rightarrow> py_exception + stream" where
  "fetch_process lib ahora net sta loc cha =
     and_then (get_waveforms lib net sta loc cha (t_inicio ahora) (t_fin ahora) True) (\<lambda>st0.
     and_then (remove_response lib ''ACC'' True True st0) (\<lambda>st1.
     and_then (filter_stream lib (Highpass (1 / 10) 4 True) st1) (\<lambda>st2.
     and_then (filter_stream lib (Lowpass 10 4 True) st2) (\<lambda>st3.
     filter_stream lib (Bandstop 49 51 2 True) st3))))"

definition data_cm_s2 :: "trace \<Rightarrow> npfloat list" where
  "data_cm_s2 tr = map np_mul100 (data tr)"

definition lat_sec :: "rat \<Rightarrow> trace \<Rightarrow> rat" where
  "lat_sec ahora tr = max 0 (ahora - endtime tr)"

definition lat_str :: "rat \<Rightarrow> string" where
  "lat_str l =
     (if l < 60 then ''(latencia '' @ format_fixed 1 l @ ''s)''
      else ''(latencia '' @ format_fixed 1 (l / 60) @ ''m)'')"

definition peak_label :: "npfloat \<Rightarrow> string \<Rightarrow> string" where
  "peak_label peak sta =
     ''['' @ format_float 2 peak @ '' cm/s'' @ [CHR 0xB2] @ ''] '' @ sta"

text \<open>A line drawn by \<^verbatim>\<open>plot(x, y, fmt)\<close>.\<close>

record plot_line =
  line_x :: "rat list"
  line_y :: "npfloat list"
  line_fmt :: string

text \<open>
  What the \<^verbatim>\<open>try\<close> block leaves when no statement of it raises: the latency text, the
  left label and the line it has drawn.
\<close>

record drawn =
  drawn_lat_str :: string
  drawn_left_label :: string
  drawn_line :: plot_line

definition try_station ::
  "obspy \<Rightarrow> rat \<Rightarrow> string \<Rightarrow> string \<Rightarrow> string \<Rightarrow> string \<Rightarrow> py_exception + drawn" where
  "try_station lib ahora net sta loc cha =
     and_then (fetch_process lib ahora net sta loc cha) (\<lambda>st.
     and_then (first_trace st) (\<lambda>tr.
       let tiempos = times_matplotlib tr;
           msk = map np_isfinite (data_cm_s2 tr);
           ls = lat_str (lat_sec ahora tr)
       in
       and_then (np_max (map np_abs (data_cm_s2 tr))) (\<lambda>peak.
       and_then (bool_index tiempos msk) (\<lambda>xs.
       and_then (bool_index (data_cm_s2 tr) msk) (\<lambda>ys.
         Inr \<lparr>drawn_lat_str = ls,
              drawn_left_label = peak_label peak sta,
              drawn_line = \<lparr>line_x = xs, line_y = ys, line_fmt = ''b-''\<rparr>\<rparr>)))))"

text \<open>
  A panel (one axes object): its lines, and the texts at its left, at its right and
  below the right one. The latency text is drawn only when \<^verbatim>\<open>lat_str\<close> is not empty.
\<close>

record panel =
  lines :: "plot_line list"
  left_label :: "string option"
  right_label :: "string option"
  lat_label :: "string option"
  xlim :: "(rat \<times> rat) option"

definition blank_panel :: panel where
  "blank_panel =
     \<lparr>lines = [], left_label = None, right_label = None, lat_label = None, xlim = None\<rparr>"

definition flat_line :: "rat \<Rightarrow> plot_line" where
  "flat_line ahora =
     \<lparr>line_x = [matplotlib_date (t_inicio ahora), matplotlib_date (t_fin ahora)],
      line_y = [Finite 0, Finite 0],
      line_fmt = ''r-''\<rparr>"

text \<open>The body of the plotting loop for one station, on the axes \<open>ax\<close>.\<close>

definition graficar ::
  "obspy \<Rightarrow> rat \<Rightarrow> (string \<rightharpoonup> string) \<Rightarrow> estacion \<Rightarrow> panel \<Rightarrow> panel" where
  "graficar lib ahora nombres e ax =
     (case e of (net, full_sta, loc, cha) \<Rightarrow>
        let sta = station_code full_sta;
            nombre = nombre_estacion nombres sta;
            (ln, left, nombre', ls) =
              (case try_station lib ahora net sta loc cha of
                 Inr d \<Rightarrow> (drawn_line d, drawn_left_label d, nombre, drawn_lat_str d)
               | Inl ex \<Rightarrow>
                   (flat_line ahora, ''[Sin datos] '' @ sta, nombre @ '' (sin datos)'', []))
        in ax\<lparr>lines := lines ax @ [ln],
               left_label := Some left,
               right_label := Some nombre',
               lat_label := (if ls \<noteq> [] then Some ls else lat_label ax),
               xlim := Some (matplotlib_date (t_inicio ahora), matplotlib_date (t_fin ahora))\<rparr>)"

text \<open>
  \<^verbatim>\<open>for i, (net, full_sta, loc, cha) in enumerate(estaciones)\<close>, writing on \<^verbatim>\<open>ax[i]\<close>.
\<close>

fun graficar_loop ::
  "obspy \<Rightarrow> rat \<Rightarrow> (string \<rightharpoonup> string) \<Rightarrow> nat \<Rightarrow> estacion list \<Rightarrow> panel list
     \<Rightarrow> py_exception + panel list" where
  "graficar_loop lib ahora nombres i [] ax = Inr ax"
| "graficar_loop lib ahora nombres i (e # es) ax =
     (if i < length ax
      then graficar_loop lib ahora nombres (Suc i) es
             (ax[i := graficar lib ahora nombres e (ax ! i)])
      else Inl IndexError)"

section \<open>The run\<close>

record figure =
  nrows :: nat
  ncols :: nat
  figsize :: "rat \<times> rat"
  dpi :: nat
  sharex :: bool
  axs :: "panel list"

text \<open>\<^verbatim>\<open>plt.subplots\<close>, with the single axes of a one-row figure wrapped in a list.\<close>

definition plt_subplots :: "nat \<Rightarrow> nat \<Rightarrow> rat \<times> rat \<Rightarrow> nat \<Rightarrow> bool \<Rightarrow> figure" where
  "plt_subplots nr nc sz d sx =
     \<lparr>nrows = nr, ncols = nc, figsize = sz, dpi = d, sharex = sx,
      axs = replicate (nr * nc) blank_panel\<rparr>"

definition IMG_HEIGHT_INCHES :: "estacion list \<Rightarrow> rat" where
  "IMG_HEIGHT_INCHES es = max (IMG_HEIGHT_PER_STATION * of_nat (length es)) 3"

datatype message = NoHayEstaciones | ImagenGenerada string | Traceback py_exception

text \<open>
  What a run leaves: the exit status of the process, the image file written (its name
  and the figure saved in it) and the messages printed.
\<close>

record outcome =
  exit_code :: int
  image :: "(string \<times> figure) option"
  printed :: "message list"

text \<open>An exception nobody catches ends the interpreter with status 1.\<close>

definition uncaught :: "py_exception \<Rightarrow> outcome" where
  "uncaught ex = \<lparr>exit_code = 1, image = None, printed = [Traceback ex]\<rparr>"

text \<open>
  The surroundings of a run: the command line, the files, the instant \<^verbatim>\<open>UTCDateTime()\<close>
  returns, taken once, and the library. Building the client and the calls of the
  plotting library are taken to succeed.
\<close>

record world =
  argv :: "string list"
  files :: filesystem
  now :: rat
  fdsn :: obspy

definition fsdn2plot :: "world \<Rightarrow> outcome" where
  "fsdn2plot w =
     (let ahora = now w in
      case open_read (files w) ARCHIVO_ESTACIONES_NOMBRE of
        Inl ex \<Rightarrow> uncaught ex
      | Inr f1 \<Rightarrow>
          let nombres = estacion_nombres f1 in
          (case open_read (files w) (ARCHIVO_ESTACIONES_CODIGO (argv w)) of
             Inl ex \<Rightarrow> uncaught ex
           | Inr f2 \<Rightarrow>
               let es = estaciones f2 in
               if es = [] then
                 \<lparr>exit_code = 1, image = None, printed = [NoHayEstaciones]\<rparr>
               else
                 let fig = plt_subplots (length es) 1
                             (IMG_WIDTH_INCHES, IMG_HEIGHT_INCHES es) IMG_DPI True
                 in (case graficar_loop (fdsn w) ahora nombres 0 es (axs fig) of
                       Inl ex \<Rightarrow> uncaught ex
                     | Inr ax \<Rightarrow>
                         \<lparr>exit_code = 0,
                          image = Some (OUTPUT_FILENAME, fig\<lparr>axs := ax\<rparr>),
                          printed = [ImagenGenerada OUTPUT_FILENAME]\<rparr>)))"

section \<open>Example inputs\<close>

text \<open>
  A library, two station files and two worlds on which the theorems below are
  evaluated. The run starts at second 7200. Station HDC3 has three finite samples and
  ends ten seconds before the start of the run; LATE holds a NaN and an infinity and ends
  ninety seconds before it; AHEAD ends five seconds after it; every other station has no
  data. With \<open>demo_steps_lib\<close> each processing step leaves its mark on the samples.
\<close>

definition demo_hdc3 :: trace where
  "demo_hdc3 =
     \<lparr>data = [Finite (1 / 100), Finite (- 1 / 40), Finite (1 / 50)],
      times_matplotlib = [matplotlib_date 7170, matplotlib_date 7180, matplotlib_date 7190],
      endtime = 7190\<rparr>"

definition demo_late :: trace where
  "demo_late =
     \<lparr>data = [Finite (1 / 100), NaN, NegInf, Finite (- 1 / 50)],
      times_matplotlib = [matplotlib_date 7080, matplotlib_date 7090, matplotlib_date 7100,
                          matplotlib_date 7110],
      endtime = 7110\<rparr>"

definition demo_ahead :: trace where
  "demo_ahead =
     \<lparr>data = [Finite (3 / 100), PosInf],
      times_matplotlib = [matplotlib_date 7195, matplotlib_date 7205],
      endtime = 7205\<rparr>"

definition demo_lib :: obspy where
  "demo_lib =
     \<lparr>get_waveforms = (\<lambda>net sta loc cha t0 t1 attach.
        if sta = ''HDC3'' then Inr [demo_hdc3]
        else if sta = ''LATE'' then Inr [demo_late]
        else if sta = ''AHEAD'' then Inr [demo_ahead]
        else Inl (FDSNException ''No data available for request.'')),
      remove_response = (\<lambda>out zero_mean taper st. Inr st),
      filter_stream = (\<lambda>fc st. Inr st)\<rparr>"

definition map_samples :: "(rat \<Rightarrow> rat) \<Rightarrow> stream \<Rightarrow> stream" where
  "map_samples g st =
     map (\<lambda>tr. tr\<lparr>data := map (\<lambda>x. case x of Finite q \<Rightarrow> Finite (g q) | _ \<Rightarrow> x) (data tr)\<rparr>) st"

fun demo_steps_filter :: "filter_call \<Rightarrow> stream \<Rightarrow> py_exception + stream" where
  "demo_steps_filter (Highpass f c z) st = Inr (map_samples (\<lambda>q. q - 1 / 100) st)"
| "demo_steps_filter (Lowpass f c z) st = Inr (map_samples (\<lambda>q. 3 * q) st)"
| "demo_steps_filter (Bandstop f1 f2 c z) st = Inr (map_samples (\<lambda>q. q * q) st)"

definition demo_steps_lib :: obspy where
  "demo_steps_lib =
     \<lparr>get_waveforms = (\<lambda>net sta loc cha t0 t1 attach.
        Inr [\<lparr>data = [Finite 4], times_matplotlib = [matplotlib_date 7190], endtime = 7190\<rparr>]),
      remove_response = (\<lambda>out zero_mean taper st.
        if out = ''ACC'' then Inr (map_samples (\<lambda>q. q / 200) st) else Inl ValueError),
      filter_stream = demo_steps_filter\<rparr>"

definition demo_nombres :: "string list" where
  "demo_nombres =
     [''HDC3 Cerro Hondura\<newline>'', ''JTS Juntas de Abangares\<newline>'', ''SOLO\<newline>'',
      ''HDC3   Hondura de Coronado \<newline>'']"

definition demo_codigos :: "string list" where
  "demo_codigos = [''CR HDC3\<newline>'', ''\<newline>'', ''CR CR.JTS\<newline>'', ''CR LATE extra\<newline>'', ''CR AHEAD\<newline>'']"

definition demo_world :: world where
  "demo_world =
     \<lparr>argv = [''fsdn2plot.py''],
      files = [ARCHIVO_ESTACIONES_NOMBRE \<mapsto> demo_nombres,
               ''lista_de_estaciones_por_codigo.txt'' \<mapsto> demo_codigos],
      now = 7200,
      fdsn = demo_lib\<rparr>"


section \<open>The station list loader\<close>

lemma load_estaciones_acc:
  "load_estaciones acc f =
     acc @ map (\<lambda>l. (py_split (py_strip l) ! 0, py_split (py_strip l) ! 1, ''*'', ''H*''))
             (filter (\<lambda>l. 2 \<le> length (py_split (py_strip l))) f)"
  by (induction f arbitrary: acc) (simp_all add: estacion_line_def Let_def)

lemma py_strip_blank:
  assumes "\<forall>c\<in>set l. py_isspace c"
  shows "py_strip l = []"
proof -
  from assms have "\<forall>c\<in>set (rev l). py_isspace c"
    by simp
  then have "dropWhile py_isspace (rev l) = []"
    by (rule dropWhile_eq_Nil_conv [THEN iffD2])
  then show ?thesis
    by (simp only: py_strip_def py_lstrip_def py_rstrip_def rev.simps dropWhile.simps)
qed

lemma split_ws_tokens:
  "\<forall>c\<in>set cur. \<not> py_isspace c \<Longrightarrow>
   \<forall>t\<in>set (split_ws cur s). t \<noteq> [] \<and> (\<forall>c\<in>set t. \<not> py_isspace c)"
proof (induction s arbitrary: cur)
  case Nil
  then show ?case by simp
next
  case (Cons c cs)
  have nil: "\<forall>t\<in>set (split_ws [] cs). t \<noteq> [] \<and> (\<forall>c\<in>set t. \<not> py_isspace c)"
    using Cons.IH [of "[]"] by simp
  show ?case
  proof (cases "py_isspace c")
    case True
    with nil Cons.prems show ?thesis by auto
  next
    case False
    with Cons.prems have "\<forall>x\<in>set (c # cur). \<not> py_isspace x" by simp
    from Cons.IH [OF this] False show ?thesis by simp
  qed
qed

lemma py_split_tokens: "t \<in> set (py_split s) \<Longrightarrow> t \<noteq> [] \<and> (\<forall>c\<in>set t. \<not> py_isspace c)"
  using split_ws_tokens [of "[]" s] by (simp add: py_split_def)

lemma py_split_sep_not_Nil: "py_split_sep sep s \<noteq> []"
  by (induction s) (auto split: list.splits)

lemma py_split_sep_length: "length (py_split_sep sep s) = Suc (count_list s sep)"
  by (induction s) (auto split: list.splits simp: py_split_sep_not_Nil)

lemma py_split_sep_none: "sep \<notin> set s \<Longrightarrow> py_split_sep sep s = [s]"
  by (induction s) auto

lemma py_split_sep_one:
  "count_list s sep = 1 \<Longrightarrow>
   \<exists>a b. py_split_sep sep s = [a, b] \<and> s = a @ sep # b \<and> sep \<notin> set a \<and> sep \<notin> set b"
proof (induction s)
  case Nil
  then show ?case by simp
next
  case (Cons c cs)
  show ?case
  proof (cases "c = sep")
    case True
    with Cons.prems have "count_list cs sep = 0" by simp
    then have "sep \<notin> set cs" by (simp add: count_list_0_iff)
    with True show ?thesis by (simp add: py_split_sep_none)
  next
    case False
    with Cons.prems have "count_list cs sep = 1" by simp
    from Cons.IH [OF this] obtain a b where
      "py_split_sep sep cs = [a, b]" "cs = a @ sep # b" "sep \<notin> set a" "sep \<notin> set b"
      by blast
    with False show ?thesis
      by (intro exI [of _ "c # a"] exI [of _ b]) auto
  qed
qed

text \<open>
  Claim C5. The station-list loader builds the descriptors in the order of the lines,
  one for every line that has at least two whitespace-separated tokens, with the first
  token as the network and the second as the station identifier; a line of whitespace
  only adds nothing. When the identifier has exactly one dot, the station code is the
  part after the dot; otherwise it is the whole identifier.
\<close>

theorem station_list_loader:
  "estaciones f =
     map (\<lambda>l. (py_split (py_strip l) ! 0, py_split (py_strip l) ! 1, ''*'', ''H*''))
       (filter (\<lambda>l. 2 \<le> length (py_split (py_strip l))) f)
   \<and> ((\<forall>c\<in>set l. py_isspace c) \<longrightarrow> estaciones (f @ [l]) = estaciones f)
   \<and> (count_list s (CHR ''.'') = 1 \<longrightarrow>
        (\<exists>a. s = a @ ''.'' @ station_code s \<and> CHR ''.'' \<notin> set a
              \<and> CHR ''.'' \<notin> set (station_code s)))
   \<and> (count_list s (CHR ''.'') \<noteq> 1 \<longrightarrow> station_code s = s)"
proof (intro conjI impI)
  show "estaciones f =
     map (\<lambda>l. (py_split (py_strip l) ! 0, py_split (py_strip l) ! 1, ''*'', ''H*''))
       (filter (\<lambda>l. 2 \<le> length (py_split (py_strip l))) f)"
    by (simp add: estaciones_def load_estaciones_acc)
next
  assume "\<forall>c\<in>set l. py_isspace c"
  then have "py_split (py_strip l) = []"
    by (simp add: py_strip_blank py_split_def)
  then show "estaciones (f @ [l]) = estaciones f"
    by (simp add: estaciones_def load_estaciones_acc)
next
  assume "count_list s (CHR ''.'') = 1"
  from py_split_sep_one [OF this] obtain a b where
    ab: "py_split_sep (CHR ''.'') s = [a, b]" "s = a @ CHR ''.'' # b"
      "CHR ''.'' \<notin> set a" "CHR ''.'' \<notin> set b"
    by blast
  then have "station_code s = b" by (simp add: station_code_def)
  with ab show "\<exists>a. s = a @ ''.'' @ station_code s \<and> CHR ''.'' \<notin> set a
              \<and> CHR ''.'' \<notin> set (station_code s)"
    by auto
next
  assume "count_list s (CHR ''.'') \<noteq> 1"
  then show "station_code s = s"
    by (simp add: station_code_def py_split_sep_length)
qed

text \<open>The theorem at a file of four lines and at two identifiers.\<close>

theorem station_list_loader_witness:
  "estaciones [''CR HDC3\<newline>'', ''  \<newline>'', ''CR  CR.JTS  x\<newline>'', ''solo\<newline>''] =
     [(''CR'', ''HDC3'', ''*'', ''H*''), (''CR'', ''CR.JTS'', ''*'', ''H*'')]
   \<and> estaciones ([''CR HDC3\<newline>''] @ [''  \<newline>'']) = estaciones [''CR HDC3\<newline>'']
   \<and> station_code ''CR.JTS'' = ''JTS''
   \<and> station_code ''HDC3'' = ''HDC3''"
proof -
  have blank: "\<forall>c\<in>set ''  \<newline>''. py_isspace c" by (simp add: py_isspace_def)
  have one: "count_list ''CR.JTS'' (CHR ''.'') = 1" by simp
  have none: "count_list ''HDC3'' (CHR ''.'') \<noteq> 1" by simp
  have e: "estaciones [''CR HDC3\<newline>'', ''  \<newline>'', ''CR  CR.JTS  x\<newline>'', ''solo\<newline>''] =
     [(''CR'', ''HDC3'', ''*'', ''H*''), (''CR'', ''CR.JTS'', ''*'', ''H*'')]" by code_simp
  have j: "station_code ''CR.JTS'' = ''JTS''" by code_simp
  from station_list_loader [of "[''CR HDC3\<newline>'']" "''  \<newline>''" "''HDC3''"] blank none e j
  show ?thesis by simp
qed

section \<open>The try block, the plotting loop and the run\<close>

lemma and_then_Inr: "and_then (Inr x) f = f x"
  by (simp add: and_then_def)

lemma and_then_Inl: "and_then (Inl e) f = Inl e"
  by (simp add: and_then_def)

lemma and_then_eq_Inr:
  "and_then m f = Inr y \<longleftrightarrow> (\<exists>x. m = Inr x \<and> f x = Inr y)"
  by (cases m) (simp_all add: and_then_def)

lemma graficar_loop_general:
  "i + length es \<le> length ax \<Longrightarrow>
   graficar_loop lib ahora nombres i es ax =
     Inr (take i ax @ map (\<lambda>(e, p). graficar lib ahora nombres e p) (zip es (drop i ax))
          @ drop (i + length es) ax)"
proof (induction es arbitrary: i ax)
  case Nil
  then show ?case by simp
next
  case (Cons e es)
  let ?ax = "ax[i := graficar lib ahora nombres e (ax ! i)]"
  from Cons.prems have i: "i < length ax" by simp
  from Cons.prems have "Suc i + length es \<le> length ?ax" by simp
  from Cons.IH [OF this] i
  have "graficar_loop lib ahora nombres i (e # es) ax =
     Inr (take (Suc i) ?ax @ map (\<lambda>(e, p). graficar lib ahora nombres e p) (zip es (drop (Suc i) ?ax))
          @ drop (Suc i + length es) ?ax)"
    by simp
  moreover from i have "take (Suc i) ?ax = take i ax @ [graficar lib ahora nombres e (ax ! i)]"
    by (simp add: take_Suc_conv_app_nth)
  moreover have "drop (Suc i) ?ax = drop (Suc i) ax" by simp
  moreover have "drop (Suc i + length es) ?ax = drop (Suc i + length es) ax" by simp
  moreover from i have "drop i ax = ax ! i # drop (Suc i) ax"
    by (simp add: Cons_nth_drop_Suc)
  ultimately show ?case by simp
qed

lemma map_zip_replicate:
  "map f (zip es (replicate (length es) b)) = map (\<lambda>e. f (e, b)) es"
  by (induction es) simp_all

lemma graficar_loop_blank:
  "graficar_loop lib ahora nombres 0 es (replicate (length es) blank_panel) =
     Inr (map (\<lambda>e. graficar lib ahora nombres e blank_panel) es)"
  using graficar_loop_general [of 0 es "replicate (length es) blank_panel" lib ahora nombres]
  by (simp add: map_zip_replicate)

lemma fsdn2plot_drawn:
  assumes "files w ARCHIVO_ESTACIONES_NOMBRE = Some f1"
    and "files w (ARCHIVO_ESTACIONES_CODIGO (argv w)) = Some f2"
    and "estaciones f2 \<noteq> []"
  shows "fsdn2plot w =
     \<lparr>exit_code = 0,
      image = Some (OUTPUT_FILENAME,
        \<lparr>nrows = length (estaciones f2), ncols = 1,
         figsize = (IMG_WIDTH_INCHES, IMG_HEIGHT_INCHES (estaciones f2)),
         dpi = IMG_DPI, sharex = True,
         axs = map (\<lambda>e. graficar (fdsn w) (now w) (estacion_nombres f1) e blank_panel)
                 (estaciones f2)\<rparr>),
      printed = [ImagenGenerada OUTPUT_FILENAME]\<rparr>"
  using assms
  by (simp add: fsdn2plot_def open_read_def Let_def plt_subplots_def graficar_loop_blank)




lemma graficar_raised:
  assumes "try_station lib ahora net (station_code full_sta) loc cha = Inl ex"
  shows "graficar lib ahora nombres (net, full_sta, loc, cha) blank_panel =
     \<lparr>lines = [flat_line ahora],
      left_label = Some (''[Sin datos] '' @ station_code full_sta),
      right_label = Some (nombre_estacion nombres (station_code full_sta) @ '' (sin datos)''),
      lat_label = None,
      xlim = Some (matplotlib_date (t_inicio ahora), matplotlib_date (t_fin ahora))\<rparr>"
  using assms by (simp add: graficar_def blank_panel_def Let_def)

lemma graficar_drawn:
  assumes "try_station lib ahora net (station_code full_sta) loc cha = Inr d"
  shows "graficar lib ahora nombres (net, full_sta, loc, cha) blank_panel =
     \<lparr>lines = [drawn_line d],
      left_label = Some (drawn_left_label d),
      right_label = Some (nombre_estacion nombres (station_code full_sta)),
      lat_label = (if drawn_lat_str d \<noteq> [] then Some (drawn_lat_str d) else None),
      xlim = Some (matplotlib_date (t_inicio ahora), matplotlib_date (t_fin ahora))\<rparr>"
  using assms by (simp add: graficar_def blank_panel_def Let_def)

lemma bool_index_self: "bool_index b (map P b) = Inr (filter P b)"
proof -
  have "map fst (filter snd (zip b (map P b))) = filter P b"
    by (induction b) simp_all
  then show ?thesis by (simp add: bool_index_def)
qed

lemma bool_index_other:
  assumes "length a = length b"
  shows "bool_index a (map P b) = Inr (map fst (filter (\<lambda>p. P (snd p)) (zip a b)))"
proof -
  from assms have "map fst (filter snd (zip a (map P b))) =
      map fst (filter (\<lambda>p. P (snd p)) (zip a b))"
    by (induction a b rule: list_induct2) simp_all
  with assms show ?thesis by (simp add: bool_index_def)
qed

lemma first_trace_Inr: "first_trace st = Inr tr \<longleftrightarrow> (\<exists>rest. st = tr # rest)"
  by (cases st) (auto simp: first_trace_def)

text \<open>What a successful try block has computed.\<close>

lemma try_station_Inr:
  assumes "try_station lib ahora net sta loc cha = Inr d"
  shows "\<exists>tr rest peak.
     fetch_process lib ahora net sta loc cha = Inr (tr # rest)
     \<and> np_max (map np_abs (data_cm_s2 tr)) = Inr peak
     \<and> length (times_matplotlib tr) = length (data tr)
     \<and> d = \<lparr>drawn_lat_str = lat_str (lat_sec ahora tr),
            drawn_left_label = peak_label peak sta,
            drawn_line =
              \<lparr>line_x = map fst (filter (\<lambda>p. np_isfinite (snd p))
                          (zip (times_matplotlib tr) (data_cm_s2 tr))),
               line_y = filter np_isfinite (data_cm_s2 tr),
               line_fmt = ''b-''\<rparr>\<rparr>"
proof -
  from assms obtain st tr peak xs ys where
    st: "fetch_process lib ahora net sta loc cha = Inr st"
    and tr: "first_trace st = Inr tr"
    and peak: "np_max (map np_abs (data_cm_s2 tr)) = Inr peak"
    and xs: "bool_index (times_matplotlib tr) (map np_isfinite (data_cm_s2 tr)) = Inr xs"
    and ys: "bool_index (data_cm_s2 tr) (map np_isfinite (data_cm_s2 tr)) = Inr ys"
    and d: "d = \<lparr>drawn_lat_str = lat_str (lat_sec ahora tr),
            drawn_left_label = peak_label peak sta,
            drawn_line = \<lparr>line_x = xs, line_y = ys, line_fmt = ''b-''\<rparr>\<rparr>"
    unfolding try_station_def Let_def and_then_eq_Inr by auto
  from tr obtain rest where rest: "st = tr # rest"
    by (auto simp: first_trace_Inr)
  from xs have len: "length (times_matplotlib tr) = length (data tr)"
    by (simp add: bool_index_def data_cm_s2_def split: if_splits)
  then have len': "length (times_matplotlib tr) = length (data_cm_s2 tr)"
    by (simp add: data_cm_s2_def)
  from xs have xs': "xs = map fst (filter (\<lambda>p. np_isfinite (snd p))
                          (zip (times_matplotlib tr) (data_cm_s2 tr)))"
    by (simp add: bool_index_other [OF len'])
  from ys have ys': "ys = filter np_isfinite (data_cm_s2 tr)"
    by (simp add: bool_index_self)
  from st rest peak len d xs' ys' show ?thesis by blast
qed

section \<open>The maximum of an array\<close>












section \<open>The name dictionary\<close>

lemma py_split1_Nil: "py_split1 [] = []"
  by (simp add: py_split1_def)

lemma py_split1_cases:
  "py_split1 s =
     (if dropWhile py_isspace s = [] then []
      else if dropWhile py_isspace (dropWhile (\<lambda>c. \<not> py_isspace c) (dropWhile py_isspace s)) = []
           then [takeWhile (\<lambda>c. \<not> py_isspace c) (dropWhile py_isspace s)]
           else [takeWhile (\<lambda>c. \<not> py_isspace c) (dropWhile py_isspace s),
                 dropWhile py_isspace (dropWhile (\<lambda>c. \<not> py_isspace c) (dropWhile py_isspace s))])"
  unfolding py_split1_def Let_def by (rule refl)

lemma takeWhile_after_dropWhile:
  assumes "dropWhile P s \<noteq> []"
  shows "takeWhile (\<lambda>c. \<not> P c) (dropWhile P s) \<noteq> []"
proof -
  from assms have "\<not> P (hd (dropWhile P s))"
    by (rule hd_dropWhile)
  with assms show ?thesis
    by (cases "dropWhile P s") simp_all
qed

lemma two_parts:
  assumes "(if A then [] else if B then [t] else [t, r]) = [a, b]"
  shows "\<not> A \<and> \<not> B \<and> a = t \<and> b = r"
  using assms by (simp split: if_splits)

lemma py_split1_two:
  assumes "py_split1 s = [a, b]"
  shows "a \<noteq> [] \<and> b \<noteq> []"
proof -
  note parts = two_parts [OF assms [unfolded py_split1_cases]]
  from parts have s1: "dropWhile py_isspace s \<noteq> []" by (rule conjunct1)
  from parts have b: "b \<noteq> []" by metis
  from parts have a: "a = takeWhile (\<lambda>c. \<not> py_isspace c) (dropWhile py_isspace s)"
    by (elim conjE)
  from takeWhile_after_dropWhile [OF s1] a have "a \<noteq> []" by metis
  with b show ?thesis by blast
qed

lemma length_two_iff: "length xs = 2 \<longleftrightarrow> (\<exists>a b. xs = [a, b])"
  by (auto simp: length_Suc_conv numeral_2_eq_2)

lemma dict_set_two:
  "(if length parts = 2 then d(parts ! 0 \<mapsto> parts ! 1) else d) k =
     (if \<exists>v. parts = [k, v] then Some (parts ! 1) else d k)"
  by (auto simp: length_two_iff)

lemma nombre_line_apply:
  "nombre_line d l k =
     (if \<exists>v. py_split1 (py_strip l) = [k, v] then Some (py_split1 (py_strip l) ! 1) else d k)"
proof (cases "py_strip l = []")
  case True
  then show ?thesis by (simp add: nombre_line_def py_split1_Nil)
next
  case False
  then have "nombre_line d l k =
      (if length (py_split1 (py_strip l)) = 2
       then d(py_split1 (py_strip l) ! 0 \<mapsto> py_split1 (py_strip l) ! 1) else d) k"
    by (simp add: nombre_line_def Let_def)
  then show ?thesis by (simp only: dict_set_two)
qed

lemma load_nombres_append:
  "load_nombres d (f @ g) = load_nombres (load_nombres d f) g"
  by (induction f arbitrary: d) simp_all

lemma load_nombres_absent:
  "\<forall>l\<in>set f. \<forall>r. py_split1 (py_strip l) \<noteq> [k, r] \<Longrightarrow> load_nombres d f k = d k"
  by (induction f arbitrary: d) (simp_all add: nombre_line_apply)

lemma load_nombres_last:
  assumes "py_split1 (py_strip l) = [k, r]"
    and "\<forall>l'\<in>set post. \<forall>r'. py_split1 (py_strip l') \<noteq> [k, r']"
  shows "load_nombres d (pre @ l # post) k = Some r"
proof -
  have "load_nombres d (pre @ l # post) k =
        load_nombres (nombre_line (load_nombres d pre) l) post k"
    by (simp add: load_nombres_append)
  also have "\<dots> = nombre_line (load_nombres d pre) l k"
    using assms(2) by (rule load_nombres_absent)
  also have "\<dots> = Some r"
    using assms(1) by (simp add: nombre_line_apply)
  finally show ?thesis .
qed

lemma graficar_right_label:
  "right_label (graficar lib ahora nombres (net, full_sta, loc, cha) ax) =
     Some (case try_station lib ahora net (station_code full_sta) loc cha of
             Inl ex \<Rightarrow> nombre_estacion nombres (station_code full_sta) @ '' (sin datos)''
           | Inr d \<Rightarrow> nombre_estacion nombres (station_code full_sta))"
  by (simp add: graficar_def Let_def split: sum.splits)


lemma lat_str_not_Nil: "lat_str l \<noteq> []"
  by (simp add: lat_str_def)

section \<open>Stations without data\<close>

lemma demo_files:
  "files demo_world ARCHIVO_ESTACIONES_NOMBRE = Some demo_nombres"
  "files demo_world (ARCHIVO_ESTACIONES_CODIGO (argv demo_world)) = Some demo_codigos"
  by (simp_all add: demo_world_def ARCHIVO_ESTACIONES_NOMBRE_def ARCHIVO_ESTACIONES_CODIGO_def)

lemma demo_estaciones:
  "estaciones demo_codigos =
     [(''CR'', ''HDC3'', ''*'', ''H*''), (''CR'', ''CR.JTS'', ''*'', ''H*''),
      (''CR'', ''LATE'', ''*'', ''H*''), (''CR'', ''AHEAD'', ''*'', ''H*'')]"
  by code_simp

lemma demo_station_codes:
  "station_code ''HDC3'' = ''HDC3''" "station_code ''CR.JTS'' = ''JTS''"
  "station_code ''LATE'' = ''LATE''" "station_code ''AHEAD'' = ''AHEAD''"
  by code_simp+

lemma demo_now: "now demo_world = 7200" "fdsn demo_world = demo_lib"
  by (simp_all add: demo_world_def)

lemma demo_try_jts:
  "try_station demo_lib 7200 ''CR'' ''JTS'' ''*'' ''H*'' =
     Inl (FDSNException ''No data available for request.'')"
  by code_simp

text \<open>
  Claim C1. When the try block of a station raises, at whatever statement, the run goes
  on: it ends with status 0 and an image of one panel per station; the panel of that
  station holds one red line at amplitude zero from the start to the end of the time
  window, its left label is \<open>[Sin datos]\<close> followed by the station code, and every
  station of the list, before and after it, has its panel drawn.
\<close>

theorem station_failure_tolerated:
  assumes "files w ARCHIVO_ESTACIONES_NOMBRE = Some f1"
    and "files w (ARCHIVO_ESTACIONES_CODIGO (argv w)) = Some f2"
    and "i < length (estaciones f2)"
    and "estaciones f2 ! i = (net, full_sta, loc, cha)"
    and "try_station (fdsn w) (now w) net (station_code full_sta) loc cha = Inl ex"
  shows "exit_code (fsdn2plot w) = 0
    \<and> (\<exists>fig. image (fsdn2plot w) = Some (OUTPUT_FILENAME, fig)
          \<and> length (axs fig) = length (estaciones f2)
          \<and> lines (axs fig ! i) =
              [\<lparr>line_x = [matplotlib_date (now w - 3600), matplotlib_date (now w)],
                line_y = [Finite 0, Finite 0], line_fmt = ''r-''\<rparr>]
          \<and> xlim (axs fig ! i) = Some (matplotlib_date (now w - 3600), matplotlib_date (now w))
          \<and> left_label (axs fig ! i) = Some (''[Sin datos] '' @ station_code full_sta)
          \<and> lat_label (axs fig ! i) = None
          \<and> (\<forall>k<length (estaciones f2).
                axs fig ! k =
                  graficar (fdsn w) (now w) (estacion_nombres f1) (estaciones f2 ! k) blank_panel))"
proof -
  let ?es = "estaciones f2"
  let ?g = "\<lambda>e. graficar (fdsn w) (now w) (estacion_nombres f1) e blank_panel"
  from assms(3) have ne: "?es \<noteq> []" by auto
  note run = fsdn2plot_drawn [OF assms(1) assms(2) ne]
  have panel: "?g (?es ! i) =
     \<lparr>lines = [flat_line (now w)],
      left_label = Some (''[Sin datos] '' @ station_code full_sta),
      right_label = Some (nombre_estacion (estacion_nombres f1) (station_code full_sta) @ '' (sin datos)''),
      lat_label = None,
      xlim = Some (matplotlib_date (t_inicio (now w)), matplotlib_date (t_fin (now w)))\<rparr>"
    using graficar_raised [OF assms(5)] assms(4) by simp
  have window: "t_inicio (now w) = now w - 3600" "t_fin (now w) = now w"
    by (simp_all add: t_inicio_def t_fin_def VENTANA_SEGUNDOS_def)
  from run have "exit_code (fsdn2plot w) = 0" by simp
  moreover from run assms(3) panel window
  have "\<exists>fig. image (fsdn2plot w) = Some (OUTPUT_FILENAME, fig)
          \<and> length (axs fig) = length ?es
          \<and> lines (axs fig ! i) =
              [\<lparr>line_x = [matplotlib_date (now w - 3600), matplotlib_date (now w)],
                line_y = [Finite 0, Finite 0], line_fmt = ''r-''\<rparr>]
          \<and> xlim (axs fig ! i) = Some (matplotlib_date (now w - 3600), matplotlib_date (now w))
          \<and> left_label (axs fig ! i) = Some (''[Sin datos] '' @ station_code full_sta)
          \<and> lat_label (axs fig ! i) = None
          \<and> (\<forall>k<length ?es. axs fig ! k = ?g (?es ! k))"
    by (simp add: flat_line_def)
  ultimately show ?thesis by blast
qed

text \<open>The example run: its second station, JTS, has no data.\<close>

theorem station_failure_tolerated_witness:
  "estaciones demo_codigos ! 1 = (''CR'', ''CR.JTS'', ''*'', ''H*'')
   \<and> try_station (fdsn demo_world) (now demo_world) ''CR'' (station_code ''CR.JTS'') ''*'' ''H*'' =
       Inl (FDSNException ''No data available for request.'')
   \<and> exit_code (fsdn2plot demo_world) = 0
   \<and> (\<exists>fig. image (fsdn2plot demo_world) = Some (OUTPUT_FILENAME, fig)
          \<and> length (axs fig) = 4
          \<and> lines (axs fig ! 1) =
              [\<lparr>line_x = [matplotlib_date 3600, matplotlib_date 7200],
                line_y = [Finite 0, Finite 0], line_fmt = ''r-''\<rparr>]
          \<and> left_label (axs fig ! 1) = Some ''[Sin datos] JTS''
          \<and> left_label (axs fig ! 3) =
               left_label (graficar demo_lib 7200 (estacion_nombres demo_nombres)
                             (''CR'', ''AHEAD'', ''*'', ''H*'') blank_panel))"
proof -
  have i: "1 < length (estaciones demo_codigos)"
    and e: "estaciones demo_codigos ! 1 = (''CR'', ''CR.JTS'', ''*'', ''H*'')"
    by (simp_all add: demo_estaciones)
  have t: "try_station (fdsn demo_world) (now demo_world) ''CR'' (station_code ''CR.JTS'') ''*'' ''H*'' =
       Inl (FDSNException ''No data available for request.'')"
    by (simp add: demo_now demo_station_codes demo_try_jts)
  from station_failure_tolerated [OF demo_files i e t]
  obtain fig where x: "exit_code (fsdn2plot demo_world) = 0"
    and fig: "image (fsdn2plot demo_world) = Some (OUTPUT_FILENAME, fig)"
    and len: "length (axs fig) = length (estaciones demo_codigos)"
    and ln: "lines (axs fig ! 1) =
              [\<lparr>line_x = [matplotlib_date (now demo_world - 3600), matplotlib_date (now demo_world)],
                line_y = [Finite 0, Finite 0], line_fmt = ''r-''\<rparr>]"
    and lab: "left_label (axs fig ! 1) = Some (''[Sin datos] '' @ station_code ''CR.JTS'')"
    and rest: "\<forall>k<length (estaciones demo_codigos).
                axs fig ! k =
                  graficar (fdsn demo_world) (now demo_world) (estacion_nombres demo_nombres)
                    (estaciones demo_codigos ! k) blank_panel"
    by blast
  from rest have "axs fig ! 3 =
      graficar demo_lib 7200 (estacion_nombres demo_nombres) (''CR'', ''AHEAD'', ''*'', ''H*'')
        blank_panel"
    by (simp add: demo_now demo_estaciones)
  with e t x fig len ln lab show ?thesis
    by (simp add: demo_now demo_station_codes demo_estaciones)
qed

section \<open>Exit status and figure\<close>





text \<open>
  Claim C3. When the station file gives N descriptors, N at least 1, the figure has N
  rows in one column with a shared x axis, one panel per descriptor in the order of the
  list, a width of 9 inches and a height of max(N / 2, 3) inches.
\<close>

theorem figure_geometry:
  assumes "files w ARCHIVO_ESTACIONES_NOMBRE = Some f1"
    and "files w (ARCHIVO_ESTACIONES_CODIGO (argv w)) = Some f2"
    and "length (estaciones f2) = N"
    and "1 \<le> N"
  shows "\<exists>fig. image (fsdn2plot w) = Some (OUTPUT_FILENAME, fig)
     \<and> nrows fig = N \<and> ncols fig = 1 \<and> sharex fig
     \<and> length (axs fig) = N
     \<and> fst (figsize fig) = 9
     \<and> snd (figsize fig) = max (1 / 2 * of_nat N) 3
     \<and> (\<forall>k<N. axs fig ! k =
            graficar (fdsn w) (now w) (estacion_nombres f1) (estaciones f2 ! k) blank_panel)"
proof -
  from assms(3) assms(4) have ne: "estaciones f2 \<noteq> []" by auto
  from fsdn2plot_drawn [OF assms(1) assms(2) ne] assms(3)
  show ?thesis
    by (simp add: IMG_WIDTH_INCHES_def IMG_HEIGHT_INCHES_def IMG_HEIGHT_PER_STATION_def)
qed

text \<open>The example run has four stations: four panels, 9 by 3 inches.\<close>

theorem figure_geometry_witness:
  "length (estaciones demo_codigos) = 4
   \<and> (\<exists>fig. image (fsdn2plot demo_world) = Some (OUTPUT_FILENAME, fig)
        \<and> nrows fig = 4 \<and> ncols fig = 1 \<and> sharex fig \<and> length (axs fig) = 4
        \<and> figsize fig = (9, 3))"
proof -
  have n: "length (estaciones demo_codigos) = 4" by (simp add: demo_estaciones)
  have "(1::nat) \<le> 4" by simp
  from figure_geometry [OF demo_files n this]
  obtain fig where "image (fsdn2plot demo_world) = Some (OUTPUT_FILENAME, fig)"
    "nrows fig = 4" "ncols fig = 1" "sharex fig" "length (axs fig) = 4"
    "fst (figsize fig) = 9" "snd (figsize fig) = max (1 / 2 * of_nat 4) 3"
    by blast
  moreover from this have "figsize fig = (9, 3)"
    by (cases "figsize fig") simp
  ultimately show ?thesis using n by blast
qed

section \<open>Stations with data\<close>

lemma demo_fetch:
  "fetch_process demo_lib 7200 ''CR'' ''HDC3'' ''*'' ''H*'' = Inr [demo_hdc3]"
  "fetch_process demo_lib 7200 ''CR'' ''LATE'' ''*'' ''H*'' = Inr [demo_late]"
  "fetch_process demo_lib 7200 ''CR'' ''AHEAD'' ''*'' ''H*'' = Inr [demo_ahead]"
  by code_simp+

lemma demo_try_hdc3:
  "try_station demo_lib 7200 ''CR'' ''HDC3'' ''*'' ''H*'' =
     Inr \<lparr>drawn_lat_str = ''(latencia 10.0s)'',
          drawn_left_label = ''[2.50 cm/s'' @ [CHR 0xB2] @ ''] HDC3'',
          drawn_line = \<lparr>line_x = [matplotlib_date 7170, matplotlib_date 7180, matplotlib_date 7190],
                         line_y = [Finite 1, Finite (- 5 / 2), Finite 2],
                         line_fmt = ''b-''\<rparr>\<rparr>"
  by code_simp


lemma demo_try_ahead:
  "try_station demo_lib 7200 ''CR'' ''AHEAD'' ''*'' ''H*'' =
     Inr \<lparr>drawn_lat_str = ''(latencia 0.0s)'',
          drawn_left_label = ''[inf cm/s'' @ [CHR 0xB2] @ ''] AHEAD'',
          drawn_line = \<lparr>line_x = [matplotlib_date 7195],
                         line_y = [Finite 3],
                         line_fmt = ''b-''\<rparr>\<rparr>"
  by code_simp




lemma graficar_lat_label:
  assumes "try_station lib ahora net (station_code full_sta) loc cha = Inr d"
  shows "lat_label (graficar lib ahora nombres (net, full_sta, loc, cha) ax) =
           (if drawn_lat_str d \<noteq> [] then Some (drawn_lat_str d) else lat_label ax)"
  using assms by (simp add: graficar_def Let_def)



text \<open>
  Claim C9. The instant \<open>now\<close> of the run is taken once; for every station with data the
  latency shown is max(0, now - end of the trace), which is never negative, and a trace
  that ends at or after that instant shows \<open>(latencia 0.0s)\<close>.
\<close>

theorem latency_not_negative:
  assumes "files w ARCHIVO_ESTACIONES_NOMBRE = Some f1"
    and "files w (ARCHIVO_ESTACIONES_CODIGO (argv w)) = Some f2"
    and "k < length (estaciones f2)"
    and "estaciones f2 ! k = (net, full_sta, loc, cha)"
    and "try_station (fdsn w) (now w) net (station_code full_sta) loc cha = Inr d"
  shows "\<exists>fig tr rest.
     image (fsdn2plot w) = Some (OUTPUT_FILENAME, fig)
     \<and> fetch_process (fdsn w) (now w) net (station_code full_sta) loc cha = Inr (tr # rest)
     \<and> lat_label (axs fig ! k) = Some (lat_str (max 0 (now w - endtime tr)))
     \<and> 0 \<le> max 0 (now w - endtime tr)
     \<and> (now w \<le> endtime tr \<longrightarrow>
          max 0 (now w - endtime tr) = 0
          \<and> lat_label (axs fig ! k) = Some ''(latencia 0.0s)'')"
proof -
  let ?g = "\<lambda>e. graficar (fdsn w) (now w) (estacion_nombres f1) e blank_panel"
  from assms(3) have ne: "estaciones f2 \<noteq> []" by auto
  from fsdn2plot_drawn [OF assms(1) assms(2) ne]
  obtain fig where fig: "image (fsdn2plot w) = Some (OUTPUT_FILENAME, fig)"
    and ax: "axs fig = map ?g (estaciones f2)"
    by simp
  from try_station_Inr [OF assms(5)] obtain tr rest where
    st: "fetch_process (fdsn w) (now w) net (station_code full_sta) loc cha = Inr (tr # rest)"
    and d: "drawn_lat_str d = lat_str (lat_sec (now w) tr)"
    by force
  from ax assms(3) assms(4) have "axs fig ! k = ?g (net, full_sta, loc, cha)"
    by simp
  with d have lab: "lat_label (axs fig ! k) = Some (lat_str (max 0 (now w - endtime tr)))"
    by (simp add: graficar_lat_label [OF assms(5)] lat_str_not_Nil lat_sec_def)
  have z: "format_fixed (Suc 0) 0 = ''0.0''" by code_simp
  have "max 0 (now w - endtime tr) = 0
          \<and> lat_label (axs fig ! k) = Some ''(latencia 0.0s)''"
    if "now w \<le> endtime tr"
  proof -
    from that have "max 0 (now w - endtime tr) = 0" by simp
    with lab z show ?thesis by (simp add: lat_str_def)
  qed
  with fig st lab show ?thesis by auto
qed

text \<open>Station AHEAD of the example, the fourth, ends 5 seconds after the start of the run.\<close>

theorem latency_not_negative_witness:
  "now demo_world \<le> endtime demo_ahead
   \<and> (\<exists>fig. image (fsdn2plot demo_world) = Some (OUTPUT_FILENAME, fig)
         \<and> lat_label (axs fig ! 3) = Some ''(latencia 0.0s)'')"
proof -
  have k: "3 < length (estaciones demo_codigos)"
    and e: "estaciones demo_codigos ! 3 = (''CR'', ''AHEAD'', ''*'', ''H*'')"
    by (simp_all add: demo_estaciones)
  have t: "try_station (fdsn demo_world) (now demo_world) ''CR'' (station_code ''AHEAD'') ''*'' ''H*'' =
     Inr \<lparr>drawn_lat_str = ''(latencia 0.0s)'',
          drawn_left_label = ''[inf cm/s'' @ [CHR 0xB2] @ ''] AHEAD'',
          drawn_line = \<lparr>line_x = [matplotlib_date 7195],
                         line_y = [Finite 3],
                         line_fmt = ''b-''\<rparr>\<rparr>"
    by (simp add: demo_now demo_station_codes demo_try_ahead)
  have late: "now demo_world \<le> endtime demo_ahead"
    by (simp add: demo_now demo_ahead_def)
  from latency_not_negative [OF demo_files k e t]
  obtain fig tr rest where
    fig: "image (fsdn2plot demo_world) = Some (OUTPUT_FILENAME, fig)"
    and st: "fetch_process (fdsn demo_world) (now demo_world) ''CR'' (station_code ''AHEAD'') ''*'' ''H*'' =
        Inr (tr # rest)"
    and zero: "now demo_world \<le> endtime tr \<longrightarrow>
          max 0 (now demo_world - endtime tr) = 0
          \<and> lat_label (axs fig ! 3) = Some ''(latencia 0.0s)''"
    by blast
  from st have "tr = demo_ahead"
    by (simp add: demo_now demo_station_codes demo_fetch)
  with zero late have "lat_label (axs fig ! 3) = Some ''(latencia 0.0s)''"
    by blast
  with fig late show ?thesis by blast
qed

section \<open>Samples that are not finite\<close>





section \<open>The order of the processing steps\<close>

lemma fetch_process_Inr:
  "fetch_process lib ahora net sta loc cha = Inr st \<longleftrightarrow>
     (\<exists>st0 st1 st2 st3.
        get_waveforms lib net sta loc cha (ahora - 3600) ahora True = Inr st0
        \<and> remove_response lib ''ACC'' True True st0 = Inr st1
        \<and> filter_stream lib (Highpass (1 / 10) 4 True) st1 = Inr st2
        \<and> filter_stream lib (Lowpass 10 4 True) st2 = Inr st3
        \<and> filter_stream lib (Bandstop 49 51 2 True) st3 = Inr st)"
  by (simp add: fetch_process_def and_then_eq_Inr t_inicio_def t_fin_def VENTANA_SEGUNDOS_def)

lemma map_samples_data:
  "map data (map_samples g st) =
     map (map (\<lambda>x. case x of Finite q \<Rightarrow> Finite (g q) | _ \<Rightarrow> x)) (map data st)"
  by (simp add: map_samples_def)

text \<open>
  Claim C8. For a station whose try block succeeds, the stream the server returned for
  the last hour went through response removal with output \<open>ACC\<close>, then the highpass
  filter, then the lowpass filter, then the band-stop filter from 49 to 51 Hz, each step
  taking the stream the step before it left; the samples of the first trace of the last
  stream, multiplied by 100, are the ones plotted and measured.
\<close>

theorem processing_order:
  assumes "try_station lib ahora net sta loc cha = Inr d"
  shows "\<exists>st0 st1 st2 st3 tr rest peak.
     get_waveforms lib net sta loc cha (ahora - 3600) ahora True = Inr st0
     \<and> remove_response lib ''ACC'' True True st0 = Inr st1
     \<and> filter_stream lib (Highpass (1 / 10) 4 True) st1 = Inr st2
     \<and> filter_stream lib (Lowpass 10 4 True) st2 = Inr st3
     \<and> filter_stream lib (Bandstop 49 51 2 True) st3 = Inr (tr # rest)
     \<and> line_y (drawn_line d) = filter np_isfinite (map np_mul100 (data tr))
     \<and> np_max (map np_abs (map np_mul100 (data tr))) = Inr peak
     \<and> drawn_left_label d = peak_label peak sta"
proof -
  from try_station_Inr [OF assms] obtain tr rest peak where
    st: "fetch_process lib ahora net sta loc cha = Inr (tr # rest)"
    and peak: "np_max (map np_abs (map np_mul100 (data tr))) = Inr peak"
    and lab: "drawn_left_label d = peak_label peak sta"
    and ys: "line_y (drawn_line d) = filter np_isfinite (map np_mul100 (data tr))"
    by (force simp: data_cm_s2_def)
  from st obtain st0 st1 st2 st3 where
    "get_waveforms lib net sta loc cha (ahora - 3600) ahora True = Inr st0"
    "remove_response lib ''ACC'' True True st0 = Inr st1"
    "filter_stream lib (Highpass (1 / 10) 4 True) st1 = Inr st2"
    "filter_stream lib (Lowpass 10 4 True) st2 = Inr st3"
    "filter_stream lib (Bandstop 49 51 2 True) st3 = Inr (tr # rest)"
    unfolding fetch_process_Inr by blast
  with peak lab ys show ?thesis by blast
qed

text \<open>
  With \<open>demo_steps_lib\<close> the server returns one sample of value 4; response removal
  divides it by 200, the highpass filter subtracts 0.01, the lowpass filter triples and
  the band-stop filter squares: 4, 0.02, 0.01, 0.03, 0.0009, and the plotted sample is
  0.09. Any other order of the four steps gives another value.
\<close>

theorem processing_order_witness:
  "\<exists>d. try_station demo_steps_lib 7200 ''CR'' ''HDC3'' ''*'' ''H*'' = Inr d
       \<and> line_y (drawn_line d) = [Finite (9 / 100)]
       \<and> drawn_left_label d = ''[0.09 cm/s'' @ [CHR 0xB2] @ ''] HDC3''"
proof -
  have "fetch_process demo_steps_lib 7200 ''CR'' ''HDC3'' ''*'' ''H*'' =
      Inr [\<lparr>data = [Finite (9 / 10000)], times_matplotlib = [matplotlib_date 7190], endtime = 7190\<rparr>]"
    by (simp add: fetch_process_def and_then_def demo_steps_lib_def map_samples_def
        t_inicio_def t_fin_def)
  then have "\<exists>d. try_station demo_steps_lib 7200 ''CR'' ''HDC3'' ''*'' ''H*'' = Inr d"
    by (simp add: try_station_def and_then_def first_trace_def np_max_def bool_index_def
        data_cm_s2_def Let_def)
  then obtain d where t: "try_station demo_steps_lib 7200 ''CR'' ''HDC3'' ''*'' ''H*'' = Inr d"
    by blast
  from processing_order [OF t] obtain st0 st1 st2 st3 tr rest peak where
    s0: "get_waveforms demo_steps_lib ''CR'' ''HDC3'' ''*'' ''H*'' (7200 - 3600) 7200 True = Inr st0"
    and s1: "remove_response demo_steps_lib ''ACC'' True True st0 = Inr st1"
    and s2: "filter_stream demo_steps_lib (Highpass (1 / 10) 4 True) st1 = Inr st2"
    and s3: "filter_stream demo_steps_lib (Lowpass 10 4 True) st2 = Inr st3"
    and s4: "filter_stream demo_steps_lib (Bandstop 49 51 2 True) st3 = Inr (tr # rest)"
    and ys: "line_y (drawn_line d) = filter np_isfinite (map np_mul100 (data tr))"
    and peak: "np_max (map np_abs (map np_mul100 (data tr))) = Inr peak"
    and lab: "drawn_left_label d = peak_label peak ''HDC3''"
    by blast
  from s0 have "st0 = [\<lparr>data = [Finite 4], times_matplotlib = [matplotlib_date 7190],
                        endtime = 7190\<rparr>]"
    by (simp add: demo_steps_lib_def)
  then have d0: "map data st0 = [[Finite 4]]" by simp
  from s1 have "st1 = map_samples (\<lambda>q. q / 200) st0"
    by (simp add: demo_steps_lib_def)
  with d0 have d1: "map data st1 = [[Finite (1 / 50)]]"
    by (simp add: map_samples_data)
  from s2 have "st2 = map_samples (\<lambda>q. q - 1 / 100) st1"
    by (simp add: demo_steps_lib_def)
  with d1 have d2: "map data st2 = [[Finite (1 / 100)]]"
    by (simp add: map_samples_data)
  from s3 have "st3 = map_samples (\<lambda>q. 3 * q) st2"
    by (simp add: demo_steps_lib_def)
  with d2 have d3: "map data st3 = [[Finite (3 / 100)]]"
    by (simp add: map_samples_data)
  from s4 have "tr # rest = map_samples (\<lambda>q. q * q) st3"
    by (simp add: demo_steps_lib_def)
  then have "map data (tr # rest) = map data (map_samples (\<lambda>q. q * q) st3)"
    by (rule arg_cong)
  with d3 have "map data (tr # rest) = [[Finite (9 / 10000)]]"
    by (simp only: map_samples_data) simp
  then have d4: "data tr = [Finite (9 / 10000)]" by simp
  from ys d4 have y: "line_y (drawn_line d) = [Finite (9 / 100)]" by simp
  from peak d4 have "peak = Finite (9 / 100)" by (simp add: np_max_def)
  moreover have "format_float 2 (Finite (9 / 100)) = ''0.09''" by code_simp
  ultimately have "drawn_left_label d = ''[0.09 cm/s'' @ [CHR 0xB2] @ ''] HDC3''"
    using lab by (simp add: peak_label_def)
  with t y show ?thesis by blast
qed

section \<open>Display names\<close>

lemma demo_nombres_parts:
  "py_split1 (py_strip ''HDC3 Cerro Hondura\<newline>'') = [''HDC3'', ''Cerro Hondura'']"
  "py_split1 (py_strip ''JTS Juntas de Abangares\<newline>'') = [''JTS'', ''Juntas de Abangares'']"
  "py_split1 (py_strip ''SOLO\<newline>'') = [''SOLO'']"
  "py_split1 (py_strip ''HDC3   Hondura de Coronado \<newline>'') = [''HDC3'', ''Hondura de Coronado'']"
  by code_simp+

text \<open>
  Claim C6, as amended. When lines of the name file have the station code as their
  first token and something after it, the display name is the remainder of the last
  such line; when no line has, it is the bare station code. The text at the right of the
  panel is the display name, followed by \<open>(sin datos)\<close> when the try block raised.
\<close>

theorem display_name_lookup:
  "(f = pre @ l # post \<and> py_split1 (py_strip l) = [sta, r]
      \<and> (\<forall>l'\<in>set post. \<forall>r'. py_split1 (py_strip l') \<noteq> [sta, r'])
     \<longrightarrow> r \<noteq> [] \<and> nombre_estacion (estacion_nombres f) sta = r)
   \<and> ((\<forall>l\<in>set f. \<forall>r. py_split1 (py_strip l) \<noteq> [sta, r])
     \<longrightarrow> nombre_estacion (estacion_nombres f) sta = sta)
   \<and> right_label (graficar lib ahora nombres (net, full_sta, loc, cha) ax) =
       Some (case try_station lib ahora net (station_code full_sta) loc cha of
               Inl ex \<Rightarrow> nombre_estacion nombres (station_code full_sta) @ '' (sin datos)''
             | Inr d \<Rightarrow> nombre_estacion nombres (station_code full_sta))"
proof (intro conjI impI)
  assume h: "f = pre @ l # post \<and> py_split1 (py_strip l) = [sta, r]
      \<and> (\<forall>l'\<in>set post. \<forall>r'. py_split1 (py_strip l') \<noteq> [sta, r'])"
  then have "load_nombres Map.empty (pre @ l # post) sta = Some r"
    by (intro load_nombres_last) simp_all
  with h show "nombre_estacion (estacion_nombres f) sta = r"
    by (simp add: nombre_estacion_def estacion_nombres_def)
  from h py_split1_two show "r \<noteq> []" by blast
next
  assume "\<forall>l\<in>set f. \<forall>r. py_split1 (py_strip l) \<noteq> [sta, r]"
  then have "load_nombres Map.empty f sta = None"
    by (simp add: load_nombres_absent)
  then show "nombre_estacion (estacion_nombres f) sta = sta"
    by (simp add: nombre_estacion_def estacion_nombres_def)
next
  show "right_label (graficar lib ahora nombres (net, full_sta, loc, cha) ax) =
       Some (case try_station lib ahora net (station_code full_sta) loc cha of
               Inl ex \<Rightarrow> nombre_estacion nombres (station_code full_sta) @ '' (sin datos)''
             | Inr d \<Rightarrow> nombre_estacion nombres (station_code full_sta))"
    by (rule graficar_right_label)
qed

text \<open>
  The claim as stated fails on a name file with two lines for one code: the first line
  of the example has the code HDC3 and the remainder \<open>Cerro Hondura\<close>, and the display
  name of HDC3 is the remainder of the fourth line.
\<close>

theorem display_name_counterexample:
  "demo_nombres ! 0 = ''HDC3 Cerro Hondura\<newline>''
   \<and> py_split1 (py_strip (demo_nombres ! 0)) = [''HDC3'', ''Cerro Hondura'']
   \<and> nombre_estacion (estacion_nombres demo_nombres) ''HDC3'' = ''Hondura de Coronado''
   \<and> nombre_estacion (estacion_nombres demo_nombres) ''HDC3'' \<noteq> ''Cerro Hondura''"
  by code_simp

text \<open>
  In the example the last line for HDC3 is the fourth one; LATE has no line, and SOLO
  has a line with nothing after the code; JTS has a name and no data.
\<close>

theorem display_name_lookup_witness:
  "nombre_estacion (estacion_nombres demo_nombres) ''HDC3'' = ''Hondura de Coronado''
   \<and> nombre_estacion (estacion_nombres demo_nombres) ''LATE'' = ''LATE''
   \<and> nombre_estacion (estacion_nombres demo_nombres) ''SOLO'' = ''SOLO''
   \<and> right_label (graficar demo_lib 7200 (estacion_nombres demo_nombres)
                    (''CR'', ''CR.JTS'', ''*'', ''H*'') blank_panel) =
       Some ''Juntas de Abangares (sin datos)''
   \<and> right_label (graficar demo_lib 7200 (estacion_nombres demo_nombres)
                    (''CR'', ''HDC3'', ''*'', ''H*'') blank_panel) =
       Some ''Hondura de Coronado''"
proof -
  have split: "demo_nombres =
      [''HDC3 Cerro Hondura\<newline>'', ''JTS Juntas de Abangares\<newline>'', ''SOLO\<newline>'']
      @ ''HDC3   Hondura de Coronado \<newline>'' # []"
    by (simp add: demo_nombres_def)
  have hdc3: "nombre_estacion (estacion_nombres demo_nombres) ''HDC3'' = ''Hondura de Coronado''"
    using display_name_lookup
      [of demo_nombres "[''HDC3 Cerro Hondura\<newline>'', ''JTS Juntas de Abangares\<newline>'', ''SOLO\<newline>'']"
          "''HDC3   Hondura de Coronado \<newline>''" "[]" "''HDC3''" "''Hondura de Coronado''"]
      split demo_nombres_parts(4)
    by simp
  have jts: "nombre_estacion (estacion_nombres demo_nombres) ''JTS'' = ''Juntas de Abangares''"
    using display_name_lookup
      [of demo_nombres "[''HDC3 Cerro Hondura\<newline>'']"
          "''JTS Juntas de Abangares\<newline>''" "[''SOLO\<newline>'', ''HDC3   Hondura de Coronado \<newline>'']"
          "''JTS''" "''Juntas de Abangares''"]
      demo_nombres_parts
    by (simp add: demo_nombres_def)
  have late: "nombre_estacion (estacion_nombres demo_nombres) ''LATE'' = ''LATE''"
    using display_name_lookup [of demo_nombres _ _ _ "''LATE''"] demo_nombres_parts
    by (simp add: demo_nombres_def)
  have solo: "nombre_estacion (estacion_nombres demo_nombres) ''SOLO'' = ''SOLO''"
    using display_name_lookup [of demo_nombres _ _ _ "''SOLO''"] demo_nombres_parts
    by (simp add: demo_nombres_def)
  have r1: "right_label (graficar demo_lib 7200 (estacion_nombres demo_nombres)
                    (''CR'', ''CR.JTS'', ''*'', ''H*'') blank_panel) =
       Some ''Juntas de Abangares (sin datos)''"
    using display_name_lookup
      [of _ _ _ _ _ _ demo_lib 7200 "estacion_nombres demo_nombres" "''CR''" "''CR.JTS''"
          "''*''" "''H*''" blank_panel]
    by (simp add: demo_station_codes demo_try_jts jts)
  have r2: "right_label (graficar demo_lib 7200 (estacion_nombres demo_nombres)
                    (''CR'', ''HDC3'', ''*'', ''H*'') blank_panel) =
       Some ''Hondura de Coronado''"
    using display_name_lookup
      [of _ _ _ _ _ _ demo_lib 7200 "estacion_nombres demo_nombres" "''CR''" "''HDC3''"
          "''*''" "''H*''" blank_panel]
    by (simp add: demo_station_codes demo_try_hdc3 hdc3)
  from hdc3 late solo r1 r2 show ?thesis by simp
qed

section \<open>The statements of the try block that can raise\<close>

lemma and_then_eq_Inl:
  "and_then m f = Inl ex \<longleftrightarrow> m = Inl ex \<or> (\<exists>x. m = Inr x \<and> f x = Inl ex)"
  by (cases m) (simp_all add: and_then_def)

text \<open>
  The request and the processing calls raise exactly when one of the five library calls
  does, the calls before it having returned.
\<close>

lemma fetch_process_Inl:
  "fetch_process lib ahora net sta loc cha = Inl ex \<longleftrightarrow>
     get_waveforms lib net sta loc cha (ahora - 3600) ahora True = Inl ex
     \<or> (\<exists>st0. get_waveforms lib net sta loc cha (ahora - 3600) ahora True = Inr st0
          \<and> (remove_response lib ''ACC'' True True st0 = Inl ex
             \<or> (\<exists>st1. remove_response lib ''ACC'' True True st0 = Inr st1
                  \<and> (filter_stream lib (Highpass (1 / 10) 4 True) st1 = Inl ex
                     \<or> (\<exists>st2. filter_stream lib (Highpass (1 / 10) 4 True) st1 = Inr st2
                          \<and> (filter_stream lib (Lowpass 10 4 True) st2 = Inl ex
                             \<or> (\<exists>st3. filter_stream lib (Lowpass 10 4 True) st2 = Inr st3
                                  \<and> filter_stream lib (Bandstop 49 51 2 True) st3 = Inl ex)))))))"
  by (simp add: fetch_process_def and_then_eq_Inl t_inicio_def t_fin_def VENTANA_SEGUNDOS_def)

text \<open>
  The try block raises exactly when the request or the processing raises, or the stream
  has no trace, or the first trace has no sample, or its instants and its samples differ
  in number.
\<close>

lemma try_station_Inl:
  "try_station lib ahora net sta loc cha = Inl ex \<longleftrightarrow>
     fetch_process lib ahora net sta loc cha = Inl ex
     \<or> (fetch_process lib ahora net sta loc cha = Inr [] \<and> ex = IndexError)
     \<or> (\<exists>tr rest. fetch_process lib ahora net sta loc cha = Inr (tr # rest)
          \<and> (data tr = [] \<and> ex = ValueError
             \<or> data tr \<noteq> [] \<and> length (times_matplotlib tr) \<noteq> length (data tr)
                \<and> ex = IndexError))"
proof (cases "fetch_process lib ahora net sta loc cha")
  case (Inl e)
  then show ?thesis by (simp add: try_station_def and_then_def)
next
  case (Inr st)
  show ?thesis
  proof (cases st)
    case Nil
    with Inr show ?thesis
      by (auto simp: try_station_def and_then_def first_trace_def)
  next
    case (Cons tr rest)
    show ?thesis
    proof (cases "data tr")
      case Nil
      with Inr Cons show ?thesis
        by (auto simp: try_station_def and_then_def first_trace_def np_max_def data_cm_s2_def)
    next
      case (Cons x xs)
      with Inr \<open>st = tr # rest\<close> show ?thesis
        by (auto simp: try_station_def and_then_def first_trace_def np_max_def data_cm_s2_def
            bool_index_def Let_def split: if_splits)
    qed
  qed
qed

end
